theory Spec2Isabelle
  imports Complex_Main
begin

section \<open>Data model of the bridge script\<close>

text \<open>
  The script \<^verbatim>\<open>resources/bridge.js\<close> keeps its state in global variables and in the
  DOM of two documents: the outer page (context menu, toast, viewer frame) and the
  document inside the viewer frame (page containers, text layers, overlay elements).
  The embedding threads one record through every function. JavaScript numbers are
  modelled as \<^typ>\<open>real\<close> (coordinates) or \<^typ>\<open>int\<close> (identifiers and page numbers),
  strings as \<^typ>\<open>string\<close>, whose characters are the code units below 256.

  Field names carry a prefix where the source's name would clash with another record or a
  HOL constant (\<open>x\<close>, \<open>id\<close>, \<open>page\<close>, \<open>rects\<close>).
\<close>

record rect =
  rect_x :: real
  rect_y :: real
  rect_w :: real
  rect_h :: real

text \<open>A \<^verbatim>\<open>DOMRect\<close> as returned by \<^verbatim>\<open>getClientRects\<close>.\<close>

record domrect =
  dr_left :: real
  dr_top :: real
  dr_width :: real
  dr_height :: real

record annotation =
  ann_id :: int
  ann_page :: int
  ann_content :: string
  ann_rects :: "rect list"
  ann_color :: string
  ann_comment :: string

text \<open>
  The value handed to \<^verbatim>\<open>JSON.stringify\<close>; object members keep the order of the literal.
  A host call that receives serialized data records the value that was serialized.
\<close>

datatype json = JNum real | JStr string | JArr "json list" | JObj "(string \<times> json) list"

datatype payload = Plain string | Stringified json

datatype host_call =
    onTextSelected string
  | onAnnotationRequest json
  | onContextAction string payload
  | onPageChanged int
  | onViewerReady

datatype log_entry = Log string | Warn string | Error string

text \<open>
  A DOM node as the ancestor walk sees it: its identity, its class list (absent on text
  nodes and on the document), its attributes and its parent.
\<close>

datatype node =
  Node (node_id: nat) (classList: "string list option")
       (attributes: "(string \<times> string) list") (parentNode: "node option")

text \<open>
  A selection object: \<^verbatim>\<open>toString()\<close>, the client rectangles of each of its ranges
  (\<^verbatim>\<open>rangeCount\<close> is the number of ranges) and \<^verbatim>\<open>anchorNode\<close>.
\<close>

record selection =
  sel_toString :: string
  sel_ranges :: "domrect list list"
  sel_anchorNode :: "node option"

record mouse_event =
  clientX :: real
  clientY :: real

text \<open>
  An overlay element created by \<^verbatim>\<open>renderHighlight\<close>. \<open>ov_annotation_id\<close> is the value
  given to the attribute \<^verbatim>\<open>data-annotation-id\<close>; the four style fields are the pixel values
  written into \<^verbatim>\<open>left\<close>, \<^verbatim>\<open>top\<close>, \<^verbatim>\<open>width\<close> and \<^verbatim>\<open>height\<close>; \<open>ov_click\<close> is the annotation
  object that the click listener closes over.
\<close>

record overlay =
  ov_className :: string
  ov_annotation_id :: int
  ov_left :: real
  ov_top :: real
  ov_width :: real
  ov_height :: real
  ov_background :: string
  ov_title :: string
  ov_click :: annotation

text \<open>
  A text layer: the left and top of its bounding client rectangle, its scroll offsets
  and its overlay children in document order.
\<close>

record text_layer =
  tl_left :: real
  tl_top :: real
  tl_scrollLeft :: real
  tl_scrollTop :: real
  tl_children :: "overlay list"

text \<open>
  An element of class \<^verbatim>\<open>page\<close> in the viewer document: the text of its attribute
  \<^verbatim>\<open>data-page-number\<close> and its first descendant of class \<^verbatim>\<open>textLayer\<close>, if any.
\<close>

record page_div =
  pd_number :: string
  pd_textLayer :: "text_layer option"

datatype viewer_app = PDFViewerApplication (eventBus: bool)

datatype callback = HideToast | SetupIframeListeners | HandleTextSelection mouse_event

datatype doc_handler = MouseUpFn | MouseDownFn

datatype bus_handler = PageChangingFn | DocumentLoadedFn | DocumentErrorFn

datatype bus_event = pagechanging int | documentloaded | documenterror "string option"

record bridge =
  pyBridge :: bool
  selectedText :: string
  selectionRects :: "rect list"
  selectionPage :: int
  annotations :: "annotation list"
  viewerApp :: "viewer_app option"
  host_calls :: "host_call list"
  console :: "log_entry list"
  timers :: "(nat \<times> callback) list"
  location_href :: string
  location_params :: "(string \<times> string) list"
  innerWidth :: real
  innerHeight :: real
  menu_display :: string
  menu_left :: "real option"
  menu_top :: "real option"
  menu_width :: real
  menu_height :: real
  toast_textContent :: string
  toast_display :: string
  iframe_src :: "string option"
  iframe_onload :: bool
  iframe_onerror :: bool
  iframe_left :: real
  iframe_top :: real
  frame_access :: bool
  frame_doc :: nat
  frame_app :: "viewer_app option"
  frame_pages :: "page_div list"
  doc_listeners :: "(string \<times> doc_handler) list"
  bus_listeners :: "(string \<times> bus_handler) list"

text \<open>
  \<open>pyBridge\<close> tells whether the global of that name holds the host object (connected
  mode) or \<^verbatim>\<open>null\<close>; \<open>host_calls\<close> lists the calls made on it, oldest first.
  \<open>timers\<close> lists the pending \<^verbatim>\<open>setTimeout\<close> callbacks with their delays.
  \<open>location_params\<close> is the parameter list that \<^verbatim>\<open>URLSearchParams\<close> reads from the
  query string. \<open>menu_width\<close>, \<open>menu_height\<close>, \<open>innerWidth\<close>, \<open>innerHeight\<close>,
  \<open>iframe_left\<close> and \<open>iframe_top\<close> are what the layout reports.
  \<open>frame_access\<close> is false when reading the frame's document raises; \<open>frame_app\<close> is the
  frame window's \<^verbatim>\<open>PDFViewerApplication\<close> at the moment it is read.
\<close>

definition call :: "host_call \<Rightarrow> bridge \<Rightarrow> bridge" where
  "call c s = s\<lparr>host_calls := host_calls s @ [c]\<rparr>"

definition Console :: "log_entry \<Rightarrow> bridge \<Rightarrow> bridge" where
  "Console e s = s\<lparr>console := console s @ [e]\<rparr>"

definition setTimeout :: "callback \<Rightarrow> nat \<Rightarrow> bridge \<Rightarrow> bridge" where
  "setTimeout f ms s = s\<lparr>timers := timers s @ [(ms, f)]\<rparr>"

section \<open>Strings\<close>

text \<open>
  White space and line terminators among the code units below 256: tab, line feed,
  vertical tab, form feed, carriage return, space and no-break space.
\<close>

definition is_js_space :: "char \<Rightarrow> bool" where
  "is_js_space c = (of_char c \<in> {9, 10, 11, 12, 13, 32, 160 :: nat})"

definition trim :: "string \<Rightarrow> string" where
  "trim str = rev (dropWhile is_js_space (rev (dropWhile is_js_space str)))"

definition is_digit :: "char \<Rightarrow> bool" where
  "is_digit c = (48 \<le> (of_char c :: nat) \<and> (of_char c :: nat) \<le> 57)"

definition digit_val :: "char \<Rightarrow> nat" where
  "digit_val c = of_char c - 48"

text \<open>
  \<^verbatim>\<open>parseInt(a, 10)\<close> on the result of \<^verbatim>\<open>getAttribute\<close>: \<open>None\<close> as argument is
  \<^verbatim>\<open>null\<close>, \<open>None\<close> as result is \<^verbatim>\<open>NaN\<close>.
\<close>

definition parseInt :: "string option \<Rightarrow> int option" where
  "parseInt a =
     (case a of
        None \<Rightarrow> None
      | Some str \<Rightarrow>
          (let t = dropWhile is_js_space str;
               sign = (if t \<noteq> [] \<and> hd t = CHR ''-'' then - 1 else (1 :: int));
               u = (if t \<noteq> [] \<and> (hd t = CHR ''-'' \<or> hd t = CHR ''+'') then tl t else t);
               z = takeWhile is_digit u
           in if z = [] then None
              else Some (sign * int (foldl (\<lambda>acc c. 10 * acc + digit_val c) 0 z))))"

section \<open>Context menu\<close>

definition showContextMenu :: "real \<Rightarrow> real \<Rightarrow> bridge \<Rightarrow> bridge" where
  "showContextMenu x y s =
     (let s1 = s\<lparr>menu_display := ''block''\<rparr>;
          x1 = (if x + menu_width s1 > innerWidth s1
                then innerWidth s1 - menu_width s1 - 10 else x);
          y1 = (if y + menu_height s1 > innerHeight s1
                then innerHeight s1 - menu_height s1 - 10 else y)
      in s1\<lparr>menu_left := Some x1, menu_top := Some y1\<rparr>)"

definition hideContextMenu :: "bridge \<Rightarrow> bridge" where
  "hideContextMenu s = s\<lparr>menu_display := ''none''\<rparr>"

section \<open>Selection tracking\<close>

text \<open>The test \<^verbatim>\<open>node.classList && node.classList.contains("page")\<close>.\<close>

definition contains_page :: "string list option \<Rightarrow> bool" where
  "contains_page cl = (case cl of None \<Rightarrow> False | Some cs \<Rightarrow> ''page'' \<in> set cs)"

text \<open>The loop of \<^verbatim>\<open>getPageFromSelection\<close>, from the anchor node upwards.\<close>

fun page_walk :: "nat \<Rightarrow> node option \<Rightarrow> int" where
  "page_walk doc None = 0"
| "page_walk doc (Some (Node i cl attrs p)) =
     (if i = doc then 0
      else if contains_page cl then
        (case parseInt (map_of attrs ''data-page-number'') of
           None \<Rightarrow> 0
         | Some pageNum \<Rightarrow> pageNum)
      else page_walk doc p)"

definition getPageFromSelection :: "nat \<Rightarrow> selection option \<Rightarrow> int" where
  "getPageFromSelection doc sel =
     (case sel of
        None \<Rightarrow> 0
      | Some sl \<Rightarrow> if length (sel_ranges sl) = 0 then 0 else page_walk doc (sel_anchorNode sl))"

definition rect_of :: "domrect \<Rightarrow> rect" where
  "rect_of r = \<lparr>rect_x = dr_left r, rect_y = dr_top r, rect_w = dr_width r, rect_h = dr_height r\<rparr>"

definition handleTextSelection :: "nat \<Rightarrow> selection option \<Rightarrow> mouse_event \<Rightarrow> bridge \<Rightarrow> bridge" where
  "handleTextSelection iframeDoc sel e s =
     (let text = (case sel of None \<Rightarrow> [] | Some sl \<Rightarrow> trim (sel_toString sl)) in
      if length text < 2 then (hideContextMenu s)\<lparr>selectedText := []\<rparr>
      else
        (let s1 = s\<lparr>selectedText := text\<rparr>;
             s2 = (case sel of
                     None \<Rightarrow> s1
                   | Some sl \<Rightarrow>
                       if length (sel_ranges sl) > 0
                       then s1\<lparr>selectionRects := map rect_of (hd (sel_ranges sl))\<rparr>
                       else s1);
             s3 = s2\<lparr>selectionPage := getPageFromSelection iframeDoc sel\<rparr>;
             s4 = (if pyBridge s3 then call (onTextSelected text) s3 else s3);
             menuX = clientX e + iframe_left s4;
             menuY = clientY e + iframe_top s4
         in showContextMenu menuX menuY s4))"

section \<open>Toast\<close>

definition showToast :: "string \<Rightarrow> nat option \<Rightarrow> bridge \<Rightarrow> bridge" where
  "showToast message duration s =
     (let d = (case duration of None \<Rightarrow> 2000 | Some n \<Rightarrow> if n = 0 then 2000 else n)
      in setTimeout HideToast d (s\<lparr>toast_textContent := message, toast_display := ''block''\<rparr>))"

section \<open>Numbers as text\<close>

function string_of_nat :: "nat \<Rightarrow> string" where
  "string_of_nat n =
     (if n < 10 then [''0123456789'' ! n]
      else string_of_nat (n div 10) @ [''0123456789'' ! (n mod 10)])"
  by pat_completeness auto
termination
  by (relation "measure id") auto

declare string_of_nat.simps [simp del]

definition string_of_int :: "int \<Rightarrow> string" where
  "string_of_int i = (if i < 0 then CHR ''-'' # string_of_nat (nat (- i)) else string_of_nat (nat i))"

section \<open>Annotation overlays\<close>

text \<open>The index of the first element that satisfies the test, as a selector finds it.\<close>

fun first_index :: "('a \<Rightarrow> bool) \<Rightarrow> 'a list \<Rightarrow> nat option" where
  "first_index P [] = None"
| "first_index P (x # xs) = (if P x then Some 0 else map_option Suc (first_index P xs))"

text \<open>
  The element built in one round of the loop of \<^verbatim>\<open>renderHighlight\<close>. \<open>rleft\<close> and \<open>rtop\<close>
  come from the text layer's bounding rectangle, read once before the loop; the scroll
  offsets are read from the text layer in each round.
\<close>

definition make_highlight :: "annotation \<Rightarrow> real \<Rightarrow> real \<Rightarrow> text_layer \<Rightarrow> rect \<Rightarrow> overlay" where
  "make_highlight ann rleft rtop textLayer r =
     \<lparr>ov_className = ''pm-highlight'',
      ov_annotation_id = ann_id ann,
      ov_left = rect_x r - rleft + tl_scrollLeft textLayer,
      ov_top = rect_y r - rtop + tl_scrollTop textLayer,
      ov_width = rect_w r,
      ov_height = rect_h r,
      ov_background = ann_color ann @ ''40'',
      ov_title = (if ann_comment ann \<noteq> [] then ann_comment ann
                  else if ann_content ann \<noteq> [] then ann_content ann else []),
      ov_click = ann\<rparr>"

definition appendChild :: "overlay \<Rightarrow> text_layer \<Rightarrow> text_layer" where
  "appendChild ov textLayer = textLayer\<lparr>tl_children := tl_children textLayer @ [ov]\<rparr>"

fun render_rects :: "annotation \<Rightarrow> real \<Rightarrow> real \<Rightarrow> rect list \<Rightarrow> text_layer \<Rightarrow> text_layer" where
  "render_rects ann rleft rtop [] textLayer = textLayer"
| "render_rects ann rleft rtop (r # rs) textLayer =
     render_rects ann rleft rtop rs (appendChild (make_highlight ann rleft rtop textLayer r) textLayer)"

definition renderHighlight :: "annotation \<Rightarrow> bridge \<Rightarrow> bridge" where
  "renderHighlight ann s =
     (if \<not> frame_access s then Console (Error ''Error rendering highlight:'') s
      else
        (case first_index (\<lambda>p. pd_number p = string_of_int (ann_page ann)) (frame_pages s) of
           None \<Rightarrow> Console (Warn (''Page div not found for page '' @ string_of_int (ann_page ann))) s
         | Some k \<Rightarrow>
             (let pageDiv = frame_pages s ! k in
              case pd_textLayer pageDiv of
                None \<Rightarrow>
                  Console (Warn (''Text layer not found for page '' @ string_of_int (ann_page ann))) s
              | Some textLayer \<Rightarrow>
                  s\<lparr>frame_pages := (frame_pages s)
                      [k := pageDiv\<lparr>pd_textLayer :=
                         Some (render_rects ann (tl_left textLayer) (tl_top textLayer)
                                 (ann_rects ann) textLayer)\<rparr>]\<rparr>)))"

text \<open>The overlay elements under a page container, and all those of the viewer document.\<close>

definition page_overlays :: "page_div \<Rightarrow> overlay list" where
  "page_overlays p = (case pd_textLayer p of None \<Rightarrow> [] | Some textLayer \<Rightarrow> tl_children textLayer)"

definition all_overlays :: "bridge \<Rightarrow> overlay list" where
  "all_overlays s = concat (map page_overlays (frame_pages s))"

text \<open>The click listener that \<^verbatim>\<open>renderHighlight\<close> attaches to an overlay element.\<close>

definition overlay_click :: "overlay \<Rightarrow> bridge \<Rightarrow> bridge" where
  "overlay_click ov s =
     (if pyBridge s
      then call (onContextAction ''show_annotation''
                   (Stringified (JObj [(''id'', JNum (of_int (ann_id (ov_click ov)))),
                                       (''content'', JStr (ann_content (ov_click ov))),
                                       (''comment'', JStr (ann_comment (ov_click ov)))]))) s
      else s)"

definition rect_json :: "rect \<Rightarrow> json" where
  "rect_json r = JObj [(''x'', JNum (rect_x r)), (''y'', JNum (rect_y r)),
                       (''w'', JNum (rect_w r)), (''h'', JNum (rect_h r))]"

definition annotationData :: "bridge \<Rightarrow> json" where
  "annotationData s =
     JObj [(''page'', JNum (of_int (selectionPage s))),
           (''text'', JStr (selectedText s)),
           (''rects'', JArr (map rect_json (selectionRects s))),
           (''color'', JStr ''#FFFF00''),
           (''comment'', JStr [])]"

definition createHighlight :: "bridge \<Rightarrow> bridge" where
  "createHighlight s =
     (if selectedText s = [] \<or> length (selectionRects s) = 0 then s
      else
        (let s1 = (if pyBridge s then call (onAnnotationRequest (annotationData s)) s else s);
             s2 = renderHighlight
                    \<lparr>ann_id = - 1, ann_page = selectionPage s1, ann_content = selectedText s1,
                     ann_rects = selectionRects s1, ann_color = ''#FFFF00'', ann_comment = []\<rparr> s1
         in showToast ''Highlight saved!'' None s2))"

definition contextAction :: "string \<Rightarrow> bridge \<Rightarrow> bridge" where
  "contextAction action s =
     (let s1 = hideContextMenu s in
      if selectedText s1 = [] then s1
      else if action = ''highlight'' then createHighlight s1
      else if pyBridge s1 then call (onContextAction action (Plain (selectedText s1))) s1
      else s1)"

definition loadAnnotations :: "annotation list \<Rightarrow> bridge \<Rightarrow> bridge" where
  "loadAnnotations annList s =
     (let s1 = Console (Log (''Loading '' @ string_of_nat (length annList)
                              @ '' annotations from DB.'')) s;
          s2 = s1\<lparr>annotations := annList\<rparr>
      in fold renderHighlight annList s2)"

definition confirmAnnotation :: "int \<Rightarrow> bridge \<Rightarrow> bridge" where
  "confirmAnnotation realId s =
     Console (Log (''Annotation confirmed with ID: '' @ string_of_int realId)) s"

section \<open>Viewer loader\<close>

text \<open>
  \<^verbatim>\<open>href.split("?")[0]\<close> is the text before the first question mark;
  \<^verbatim>\<open>substring(0, lastIndexOf("/"))\<close> is the text before the last slash, and the
  empty string when there is no slash.
\<close>

definition resolvePdfjsPath :: "bridge \<Rightarrow> string" where
  "resolvePdfjsPath s =
     (let href = takeWhile (\<lambda>c. c \<noteq> CHR ''?'') (location_href s);
          basePath = (if CHR ''/'' \<in> set href
                      then rev (tl (dropWhile (\<lambda>c. c \<noteq> CHR ''/'') (rev href))) else [])
      in basePath @ ''/../pdfjs-5.4.624-dist/web/viewer.html'')"

definition hex_digit :: "nat \<Rightarrow> char" where
  "hex_digit n = ''0123456789ABCDEF'' ! n"

definition percent :: "nat \<Rightarrow> string" where
  "percent b = [CHR ''%'', hex_digit (b div 16), hex_digit (b mod 16)]"

text \<open>
  The characters that \<^verbatim>\<open>encodeURIComponent\<close> leaves alone: letters, digits and
  \<^verbatim>\<open>- _ . ! ~ * ' ( )\<close>.
\<close>

definition uri_unreserved :: "char \<Rightarrow> bool" where
  "uri_unreserved c =
     (let n = (of_char c :: nat)
      in (65 \<le> n \<and> n \<le> 90) \<or> (97 \<le> n \<and> n \<le> 122) \<or> (48 \<le> n \<and> n \<le> 57)
         \<or> n \<in> {45, 95, 46, 33, 126, 42, 39, 40, 41})"

text \<open>A code unit from 128 to 255 is two bytes in UTF-8.\<close>

definition encodeURIComponent :: "string \<Rightarrow> string" where
  "encodeURIComponent str =
     concat (map (\<lambda>c. let n = (of_char c :: nat)
                       in if uri_unreserved c then [c]
                          else if n < 128 then percent n
                          else percent (192 + n div 64) @ percent (128 + n mod 64)) str)"

definition initViewer :: "bridge \<Rightarrow> bridge" where
  "initViewer s =
     (let fileUrl = map_of (location_params s) ''file'' in
      case fileUrl of
        None \<Rightarrow>
          showToast ''Error: No PDF file specified'' (Some 3000)
            (Console (Error ''No 'file' parameter provided in URL.'') s)
      | Some f \<Rightarrow>
          if f = [] then
            showToast ''Error: No PDF file specified'' (Some 3000)
              (Console (Error ''No 'file' parameter provided in URL.'') s)
          else
            (let s1 = Console (Log ''=== PDF.js Initialization ==='') s;
                 s2 = Console (Log (''File URL from parameter: '' @ f)) s1;
                 s3 = Console (Log (''Current location: '' @ location_href s2)) s2;
                 s4 = Console (Log ''Raw URL params:'') s3;
                 pdfjsViewerPath = resolvePdfjsPath s4;
                 s5 = Console (Log (''PDF.js viewer path: '' @ pdfjsViewerPath)) s4;
                 viewerUrl = pdfjsViewerPath @ ''?file='' @ encodeURIComponent f;
                 s6 = Console (Log (''Final viewer URL: '' @ viewerUrl)) s5
             in s6\<lparr>iframe_src := Some viewerUrl, iframe_onload := True, iframe_onerror := True\<rparr>))"

section \<open>Listeners inside the viewer frame\<close>

definition setupIframeListeners :: "bridge \<Rightarrow> bridge" where
  "setupIframeListeners s =
     (if \<not> frame_access s then
        showToast ''Error: Failed to access PDF viewer (security restriction)'' (Some 5000)
          (Console (Error ''Error details:'')
             (Console (Error ''[ERROR] Failed to set up iframe listeners:'') s))
      else
        (let s1 = Console (Log ''iframeWin: OK'')
                    (Console (Log ''iframeDoc: OK'')
                       (Console (Log ''Setting up iframe listeners...'') s));
             s2 = s1\<lparr>viewerApp := frame_app s1\<rparr>
         in if (case viewerApp s2 of None \<Rightarrow> True | Some app \<Rightarrow> \<not> eventBus app) then
              setTimeout SetupIframeListeners 100
                (Console (Log ''PDFViewerApplication not ready, retrying in 100ms...'') s2)
            else
              (let s3 = Console (Log ''[OK] PDFViewerApplication ready'') s2;
                   s4 = s3\<lparr>doc_listeners := doc_listeners s3
                            @ [(''mouseup'', MouseUpFn), (''mousedown'', MouseDownFn)]\<rparr>;
                   s5 = s4\<lparr>bus_listeners := bus_listeners s4
                            @ [(''pagechanging'', PageChangingFn),
                               (''documentloaded'', DocumentLoadedFn),
                               (''documenterror'', DocumentErrorFn)]\<rparr>
               in Console (Log ''[OK] Iframe listeners installed successfully'') s5)))"

definition iframe_load :: "bridge \<Rightarrow> bridge" where
  "iframe_load s =
     (if iframe_onload s
      then setupIframeListeners (Console (Log ''[OK] PDF.js iframe loaded successfully'') s)
      else s)"

definition iframe_error :: "bridge \<Rightarrow> bridge" where
  "iframe_error s =
     (if iframe_onerror s
      then showToast ''Error: Failed to load PDF viewer'' (Some 5000)
             (Console (Error ''[ERROR] Failed to load PDF.js viewer iframe:'') s)
      else s)"

text \<open>
  The three functions subscribed on the viewer's event bus. Each is only ever called
  with an event of the name it was subscribed under.
\<close>

definition run_bus_handler :: "bus_handler \<Rightarrow> bus_event \<Rightarrow> bridge \<Rightarrow> bridge" where
  "run_bus_handler h evt s =
     (case h of
        PageChangingFn \<Rightarrow>
          (case evt of
             pagechanging pageNumber \<Rightarrow> if pyBridge s then call (onPageChanged pageNumber) s else s
           | _ \<Rightarrow> s)
      | DocumentLoadedFn \<Rightarrow>
          (let s1 = Console (Log ''[OK] PDF document fully loaded!'') s
           in if pyBridge s1 then call onViewerReady s1 else s1)
      | DocumentErrorFn \<Rightarrow>
          (let message = (case evt of documenterror m \<Rightarrow> m | _ \<Rightarrow> None);
               shown = (case message of
                          None \<Rightarrow> ''Unknown error''
                        | Some t \<Rightarrow> if t = [] then ''Unknown error'' else t)
           in showToast (''Error loading PDF: '' @ shown) (Some 5000)
                (Console (Error ''[ERROR] PDF document error:'') s)))"

fun event_name :: "bus_event \<Rightarrow> string" where
  "event_name (pagechanging n) = ''pagechanging''"
| "event_name documentloaded = ''documentloaded''"
| "event_name (documenterror m) = ''documenterror''"

text \<open>
  The event bus calls, in subscription order, every function subscribed under the
  event's name.
\<close>

fun run_listeners :: "(string \<times> bus_handler) list \<Rightarrow> bus_event \<Rightarrow> bridge \<Rightarrow> bridge" where
  "run_listeners [] evt s = s"
| "run_listeners ((name, h) # ls) evt s =
     run_listeners ls evt (if name = event_name evt then run_bus_handler h evt s else s)"

definition dispatch :: "bus_event \<Rightarrow> bridge \<Rightarrow> bridge" where
  "dispatch evt s = run_listeners (bus_listeners s) evt s"

fun dispatch_all :: "bus_event list \<Rightarrow> bridge \<Rightarrow> bridge" where
  "dispatch_all [] s = s"
| "dispatch_all (evt # evts) s = dispatch_all evts (dispatch evt s)"

text \<open>The two listeners on the viewer document, and the callbacks that timers run.\<close>

datatype doc_event = mouseup mouse_event | mousedown mouse_event

definition run_doc_handler :: "doc_handler \<Rightarrow> doc_event \<Rightarrow> bridge \<Rightarrow> bridge" where
  "run_doc_handler h evt s =
     (case h of
        MouseUpFn \<Rightarrow>
          (case evt of
             mouseup e \<Rightarrow> setTimeout (HandleTextSelection e) 50 s
           | mousedown e \<Rightarrow> setTimeout (HandleTextSelection e) 50 s)
      | MouseDownFn \<Rightarrow> hideContextMenu s)"

text \<open>
  \<open>sel\<close> is what \<^verbatim>\<open>getSelection()\<close> of the frame window returns when the timer fires.
\<close>

definition run_callback :: "callback \<Rightarrow> selection option \<Rightarrow> bridge \<Rightarrow> bridge" where
  "run_callback f sel s =
     (case f of
        HideToast \<Rightarrow> s\<lparr>toast_display := ''none''\<rparr>
      | SetupIframeListeners \<Rightarrow> setupIframeListeners s
      | HandleTextSelection e \<Rightarrow> handleTextSelection (frame_doc s) sel e s)"

section \<open>Notions used to state the properties\<close>

text \<open>A node followed by its ancestors, nearest first.\<close>

fun ancestors_or_self :: "node option \<Rightarrow> node list" where
  "ancestors_or_self None = []"
| "ancestors_or_self (Some (Node i cl attrs p)) = Node i cl attrs p # ancestors_or_self p"

text \<open>
  The overlay elements that rendering annotation \<open>ann\<close> in state \<open>s\<close> adds under the
  page container at index \<open>k\<close>: one for each rectangle when \<open>k\<close> is the page container
  the selector finds and it holds a text layer, none otherwise.
\<close>

definition rendered_on :: "bridge \<Rightarrow> nat \<Rightarrow> annotation \<Rightarrow> overlay list" where
  "rendered_on s k ann =
     (if frame_access s
         \<and> first_index (\<lambda>p. pd_number p = string_of_int (ann_page ann)) (frame_pages s) = Some k
      then (case pd_textLayer (frame_pages s ! k) of
              None \<Rightarrow> []
            | Some textLayer \<Rightarrow>
                map (make_highlight ann (tl_left textLayer) (tl_top textLayer) textLayer)
                  (ann_rects ann))
      else [])"

text \<open>
  What rendering reads from a page container and never writes: the page number text and
  the position and scroll offsets of the text layer.
\<close>

definition page_layout :: "page_div \<Rightarrow> string \<times> (real \<times> real \<times> real \<times> real) option" where
  "page_layout p =
     (pd_number p,
      map_option (\<lambda>textLayer. (tl_left textLayer, tl_top textLayer,
                                  tl_scrollLeft textLayer, tl_scrollTop textLayer))
        (pd_textLayer p))"

section \<open>A session to run the script on\<close>

text \<open>
  The globals as the script declares them, in an 800 by 600 window with a menu of 160 by
  120, the frame at (40, 20), and a viewer document that has rendered page 1 with an
  empty text layer at (50, 30), scrolled by (0, 5).
\<close>

definition boot :: bridge where
  "boot =
     \<lparr>pyBridge = False, selectedText = [], selectionRects = [], selectionPage = 0,
      annotations = [], viewerApp = None, host_calls = [], console = [], timers = [],
      location_href = ''file:///app/resources/viewer_bridge.html?file=/home/u/paper.pdf'',
      location_params = [(''file'', ''/home/u/paper.pdf'')],
      innerWidth = 800, innerHeight = 600,
      menu_display = ''none'', menu_left = None, menu_top = None,
      menu_width = 160, menu_height = 120,
      toast_textContent = [], toast_display = ''none'',
      iframe_src = None, iframe_onload = False, iframe_onerror = False,
      iframe_left = 40, iframe_top = 20,
      frame_access = True, frame_doc = 0,
      frame_app = Some (PDFViewerApplication True),
      frame_pages = [\<lparr>pd_number = ''1'',
                       pd_textLayer = Some \<lparr>tl_left = 50, tl_top = 30, tl_scrollLeft = 0,
                                             tl_scrollTop = 5, tl_children = []\<rparr>\<rparr>],
      doc_listeners = [], bus_listeners = []\<rparr>"

definition connected :: bridge where
  "connected = boot\<lparr>pyBridge := True\<rparr>"

text \<open>
  Nodes of the viewer document: a text node inside a span of the text layer of page 1,
  and a text node inside the toolbar, which no page container encloses. Node 0 is the
  document.
\<close>

definition document_node :: node where
  "document_node = Node 0 None [] None"

definition page_node :: node where
  "page_node =
     Node 3 (Some [''page'']) [(''class'', ''page''), (''data-page-number'', ''1'')]
       (Some (Node 1 (Some [''pdfViewer'']) [] (Some document_node)))"

definition text_node :: node where
  "text_node =
     Node 7 None []
       (Some (Node 6 (Some []) []
          (Some (Node 5 (Some [''textLayer'']) [] (Some page_node)))))"

definition toolbar_text_node :: node where
  "toolbar_text_node =
     Node 9 None [] (Some (Node 8 (Some [''toolbar'']) [] (Some document_node)))"

definition line1 :: domrect where
  "line1 = \<lparr>dr_left = 120, dr_top = 210, dr_width = 300, dr_height = 14\<rparr>"

definition line2 :: domrect where
  "line2 = \<lparr>dr_left = 60, dr_top = 226, dr_width = 180, dr_height = 14\<rparr>"

definition sel_long :: selection where
  "sel_long = \<lparr>sel_toString = '' Attention is all you need '', sel_ranges = [[line1, line2]],
               sel_anchorNode = Some text_node\<rparr>"

definition sel_short :: selection where
  "sel_short = \<lparr>sel_toString = '' a '', sel_ranges = [[line1]],
                sel_anchorNode = Some text_node\<rparr>"

definition sel_toolbar :: selection where
  "sel_toolbar = \<lparr>sel_toString = ''Zoom In'', sel_ranges = [[line1]],
                  sel_anchorNode = Some toolbar_text_node\<rparr>"

definition release :: mouse_event where
  "release = \<lparr>clientX = 300, clientY = 200\<rparr>"

text \<open>The same session opened without a \<^verbatim>\<open>file\<close> parameter.\<close>

definition no_file :: bridge where
  "no_file = boot\<lparr>location_href := ''file:///app/resources/viewer_bridge.html?page=3'',
                  location_params := [(''page'', ''3'')]\<rparr>"

text \<open>The connected session after the two-line selection, and after the toolbar selection.\<close>

definition selected :: bridge where
  "selected = handleTextSelection 0 (Some sel_long) release connected"

definition selected_toolbar :: bridge where
  "selected_toolbar = handleTextSelection 0 (Some sel_toolbar) release connected"

text \<open>Two annotations as the host sends them.\<close>

definition ann7 :: annotation where
  "ann7 = \<lparr>ann_id = 7, ann_page = 1, ann_content = ''Attention'',
           ann_rects = [\<lparr>rect_x = 120, rect_y = 210, rect_w = 80, rect_h = 14\<rparr>],
           ann_color = ''#FF8800'', ann_comment = ''key idea''\<rparr>"

definition ann8 :: annotation where
  "ann8 = \<lparr>ann_id = 8, ann_page = 1, ann_content = ''Transformer'',
           ann_rects = [\<lparr>rect_x = 60, rect_y = 300, rect_w = 95, rect_h = 14\<rparr>],
           ann_color = ''#00FF00'', ann_comment = []\<rparr>"

section \<open>Rendering lemmas\<close>

lemma make_highlight_appendChild:
  "make_highlight ann l t (appendChild ov textLayer) = make_highlight ann l t textLayer"
  by (rule ext) (simp add: make_highlight_def appendChild_def)

lemma render_rects_eq:
  "render_rects ann l t rs textLayer =
     textLayer\<lparr>tl_children := tl_children textLayer @ map (make_highlight ann l t textLayer) rs\<rparr>"
proof (induction rs arbitrary: textLayer)
  case Nil
  show ?case by simp
next
  case (Cons r rs)
  show ?case
    by (simp add: Cons.IH make_highlight_appendChild) (simp add: appendChild_def)
qed

lemma first_index_Some:
  "first_index P xs = Some k \<Longrightarrow> k < length xs \<and> P (xs ! k)"
proof (induction xs arbitrary: k)
  case Nil
  then show ?case by simp
next
  case (Cons x xs)
  then show ?case by (cases "P x") auto
qed

lemma renderHighlight_found:
  assumes "frame_access s"
    and "first_index (\<lambda>p. pd_number p = string_of_int (ann_page ann)) (frame_pages s) = Some k"
    and "pd_textLayer (frame_pages s ! k) = Some textLayer"
  shows "renderHighlight ann s =
           s\<lparr>frame_pages := (frame_pages s)
               [k := (frame_pages s ! k)\<lparr>pd_textLayer :=
                  Some (textLayer\<lparr>tl_children := tl_children textLayer
                     @ map (make_highlight ann (tl_left textLayer) (tl_top textLayer) textLayer)
                         (ann_rects ann)\<rparr>)\<rparr>]\<rparr>"
  using assms by (simp add: renderHighlight_def render_rects_eq)

lemma renderHighlight_page_overlays:
  "page_overlays (frame_pages (renderHighlight ann s) ! k) =
     page_overlays (frame_pages s ! k) @ rendered_on s k ann"
proof (cases "frame_access s")
  case False
  then show ?thesis by (simp add: renderHighlight_def rendered_on_def Console_def)
next
  case acc: True
  show ?thesis
  proof (cases "first_index (\<lambda>p. pd_number p = string_of_int (ann_page ann)) (frame_pages s)")
    case None
    with acc show ?thesis by (simp add: renderHighlight_def rendered_on_def Console_def)
  next
    case (Some j)
    then have j: "j < length (frame_pages s)" by (simp add: first_index_Some)
    show ?thesis
    proof (cases "pd_textLayer (frame_pages s ! j)")
      case None
      with acc Some show ?thesis
        by (auto simp add: renderHighlight_def rendered_on_def Console_def)
    next
      case (Some textLayer)
      note found = renderHighlight_found [OF acc \<open>first_index _ _ = Some j\<close> Some]
      show ?thesis
      proof (cases "k = j")
        case True
        with acc \<open>first_index _ _ = Some j\<close> Some j show ?thesis
          by (simp add: found rendered_on_def page_overlays_def)
      next
        case False
        with acc \<open>first_index _ _ = Some j\<close> show ?thesis
          by (simp add: found rendered_on_def)
      qed
    qed
  qed
qed

lemma renderHighlight_frame:
  "pyBridge (renderHighlight ann s) = pyBridge s"
  "host_calls (renderHighlight ann s) = host_calls s"
  "annotations (renderHighlight ann s) = annotations s"
  "frame_access (renderHighlight ann s) = frame_access s"
  "length (frame_pages (renderHighlight ann s)) = length (frame_pages s)"
  by (simp_all add: renderHighlight_def Console_def Let_def split: option.split)

lemma rendered_on_elem:
  assumes "ov \<in> set (rendered_on t k ann)"
  shows "ov_annotation_id ov = ann_id ann \<and> ov_click ov = ann"
proof (cases "frame_access t
         \<and> first_index (\<lambda>p. pd_number p = string_of_int (ann_page ann)) (frame_pages t) = Some k")
  case False
  then have "rendered_on t k ann = []"
    unfolding rendered_on_def by (rule if_not_P)
  with assms show ?thesis by simp
next
  case True
  then have r: "rendered_on t k ann = (case pd_textLayer (frame_pages t ! k) of
              None \<Rightarrow> []
            | Some textLayer \<Rightarrow>
                map (make_highlight ann (tl_left textLayer) (tl_top textLayer) textLayer)
                  (ann_rects ann))"
    unfolding rendered_on_def by (rule if_P)
  show ?thesis
  proof (cases "pd_textLayer (frame_pages t ! k)")
    case None
    with r assms show ?thesis by simp
  next
    case (Some textLayer)
    with r assms have "ov \<in> make_highlight ann (tl_left textLayer) (tl_top textLayer) textLayer ` set (ann_rects ann)"
      by simp
    then obtain q where "ov = make_highlight ann (tl_left textLayer) (tl_top textLayer) textLayer q"
      by blast
    then show ?thesis
      by (simp add: make_highlight_def)
  qed
qed

lemma first_index_map:
  "first_index (\<lambda>p. Q (f p)) xs = first_index Q (map f xs)"
  by (induction xs) simp_all

lemma make_highlight_scroll:
  assumes "tl_scrollLeft a = tl_scrollLeft b" and "tl_scrollTop a = tl_scrollTop b"
  shows "make_highlight ann l t a = make_highlight ann l t b"
  using assms by (intro ext) (simp add: make_highlight_def)

lemma rendered_on_cong:
  assumes acc: "frame_access s = frame_access t"
    and lay: "map page_layout (frame_pages s) = map page_layout (frame_pages t)"
  shows "rendered_on s k ann = rendered_on t k ann"
proof -
  let ?P = "\<lambda>p. pd_number p = string_of_int (ann_page ann)"
  have "first_index ?P xs = first_index (\<lambda>n. fst n = string_of_int (ann_page ann)) (map page_layout xs)"
    for xs
    using first_index_map [of "\<lambda>n. fst n = string_of_int (ann_page ann)" page_layout xs]
    by (simp add: page_layout_def)
  with lay have fi: "first_index ?P (frame_pages s) = first_index ?P (frame_pages t)"
    by simp
  show ?thesis
  proof (cases "frame_access s \<and> first_index ?P (frame_pages s) = Some k")
    case False
    with acc fi show ?thesis by (auto simp add: rendered_on_def)
  next
    case True
    then have k: "k < length (frame_pages s)"
      using first_index_Some [of ?P "frame_pages s" k] by simp
    from lay have "length (frame_pages s) = length (frame_pages t)"
      by (metis length_map)
    with k have k': "k < length (frame_pages t)" by simp
    from lay have "map page_layout (frame_pages s) ! k = map page_layout (frame_pages t) ! k"
      by simp
    with k k' have eq: "page_layout (frame_pages s ! k) = page_layout (frame_pages t ! k)"
      by simp
    show ?thesis
    proof (cases "pd_textLayer (frame_pages s ! k)")
      case None
      with eq have "pd_textLayer (frame_pages t ! k) = None"
        by (simp add: page_layout_def)
      with None True acc fi show ?thesis by (simp add: rendered_on_def)
    next
      case (Some a)
      with eq obtain b where b: "pd_textLayer (frame_pages t ! k) = Some b"
        and g: "tl_left a = tl_left b" "tl_top a = tl_top b"
               "tl_scrollLeft a = tl_scrollLeft b" "tl_scrollTop a = tl_scrollTop b"
        by (cases "pd_textLayer (frame_pages t ! k)") (auto simp add: page_layout_def)
      from g have "make_highlight ann (tl_left a) (tl_top a) a = make_highlight ann (tl_left b) (tl_top b) b"
        using make_highlight_scroll [of a b ann "tl_left b" "tl_top b"] by simp
      with Some b True acc fi show ?thesis by (simp add: rendered_on_def)
    qed
  qed
qed

lemma renderHighlight_layout:
  "map page_layout (frame_pages (renderHighlight ann s)) = map page_layout (frame_pages s)"
proof (cases "frame_access s")
  case False
  then show ?thesis by (simp add: renderHighlight_def Console_def)
next
  case acc: True
  show ?thesis
  proof (cases "first_index (\<lambda>p. pd_number p = string_of_int (ann_page ann)) (frame_pages s)")
    case None
    with acc show ?thesis by (simp add: renderHighlight_def Console_def)
  next
    case (Some j)
    show ?thesis
    proof (cases "pd_textLayer (frame_pages s ! j)")
      case None
      with acc Some show ?thesis by (simp add: renderHighlight_def Console_def)
    next
      case (Some textLayer)
      note found = renderHighlight_found [OF acc \<open>first_index _ _ = Some j\<close> Some]
      have j: "j < length (frame_pages s)"
        using first_index_Some [OF \<open>first_index _ _ = Some j\<close>] by simp
      have "page_layout ((frame_pages s ! j)\<lparr>pd_textLayer :=
                  Some (textLayer\<lparr>tl_children := tl_children textLayer
                     @ map (make_highlight ann (tl_left textLayer) (tl_top textLayer) textLayer)
                         (ann_rects ann)\<rparr>)\<rparr>) = map page_layout (frame_pages s) ! j"
        using Some j by (simp add: page_layout_def)
      then show ?thesis
        by (simp add: found map_update)
    qed
  qed
qed

lemma fold_renderHighlight_frame:
  "frame_access (fold renderHighlight l s) = frame_access s"
  "map page_layout (frame_pages (fold renderHighlight l s)) = map page_layout (frame_pages s)"
  "annotations (fold renderHighlight l s) = annotations s"
  "host_calls (fold renderHighlight l s) = host_calls s"
  by (induction l arbitrary: s) (simp_all add: renderHighlight_frame renderHighlight_layout)

lemma fold_renderHighlight_overlays:
  "page_overlays (frame_pages (fold renderHighlight l s) ! k)
     = page_overlays (frame_pages s ! k) @ concat (map (rendered_on s k) l)"
proof (induction l arbitrary: s)
  case Nil
  show ?case by simp
next
  case (Cons a l)
  have "rendered_on (renderHighlight a s) k = rendered_on s k"
    by (rule ext) (rule rendered_on_cong; simp add: renderHighlight_frame renderHighlight_layout)
  then show ?case
    by (simp add: Cons.IH renderHighlight_page_overlays)
qed

lemma createHighlight_frame:
  "pyBridge (createHighlight s) = pyBridge s"
  by (simp add: createHighlight_def showToast_def setTimeout_def renderHighlight_frame call_def Let_def)

lemma createHighlight_page_overlays:
  assumes "selectedText s \<noteq> []" and "selectionRects s \<noteq> []"
  shows "page_overlays (frame_pages (createHighlight s) ! k)
           = page_overlays (frame_pages s ! k)
             @ rendered_on s k \<lparr>ann_id = - 1, ann_page = selectionPage s, ann_content = selectedText s,
      ann_rects = selectionRects s, ann_color = ''#FFFF00'', ann_comment = []\<rparr>"
proof -
  let ?ann = "\<lparr>ann_id = - 1, ann_page = selectionPage s, ann_content = selectedText s,
      ann_rects = selectionRects s, ann_color = ''#FFFF00'', ann_comment = []\<rparr>"
  let ?s1 = "if pyBridge s then call (onAnnotationRequest (annotationData s)) s else s"
  have pages: "frame_pages (createHighlight s) = frame_pages (renderHighlight ?ann ?s1)"
    using assms by (simp add: createHighlight_def showToast_def setTimeout_def Let_def call_def)
  have "rendered_on ?s1 k ?ann = rendered_on s k ?ann"
    by (rule rendered_on_cong; simp add: call_def)
  moreover have "frame_pages ?s1 = frame_pages s"
    by (simp add: call_def)
  ultimately show ?thesis
    by (simp only: pages renderHighlight_page_overlays)
qed

section \<open>The example session evaluated\<close>

lemma selected_eq:
  "selected = connected\<lparr>selectedText := ''Attention is all you need'',
       selectionRects := [\<lparr>rect_x = 120, rect_y = 210, rect_w = 300, rect_h = 14\<rparr>,
                          \<lparr>rect_x = 60, rect_y = 226, rect_w = 180, rect_h = 14\<rparr>],
       selectionPage := 1,
       host_calls := [onTextSelected ''Attention is all you need''],
       menu_display := ''block'', menu_left := Some 340, menu_top := Some 220\<rparr>"
  by (simp add: selected_def handleTextSelection_def showContextMenu_def call_def
        getPageFromSelection_def trim_def is_js_space_def Let_def rect_of_def contains_page_def
        parseInt_def is_digit_def digit_val_def
        sel_long_def connected_def boot_def release_def line1_def line2_def
        text_node_def page_node_def document_node_def)

lemma selected_toolbar_eq:
  "selected_toolbar = connected\<lparr>selectedText := ''Zoom In'',
       selectionRects := [\<lparr>rect_x = 120, rect_y = 210, rect_w = 300, rect_h = 14\<rparr>],
       selectionPage := 0,
       host_calls := [onTextSelected ''Zoom In''],
       menu_display := ''block'', menu_left := Some 340, menu_top := Some 220\<rparr>"
  by (simp add: selected_toolbar_def handleTextSelection_def showContextMenu_def call_def
        getPageFromSelection_def trim_def is_js_space_def Let_def rect_of_def contains_page_def
        sel_toolbar_def connected_def boot_def release_def line1_def
        toolbar_text_node_def document_node_def)

lemma boot_page1:
  "first_index (\<lambda>p. pd_number p = string_of_int 1) (frame_pages boot) = Some 0"
  by (simp add: boot_def string_of_int_def string_of_nat.simps)

lemma selected_page1:
  "first_index (\<lambda>p. pd_number p = string_of_int (selectionPage selected)) (frame_pages selected) = Some 0"
  by (simp add: selected_eq connected_def boot_def string_of_int_def string_of_nat.simps)

lemma selected_created:
  "page_overlays (frame_pages (createHighlight selected) ! 0)
     = [make_highlight \<lparr>ann_id = - 1, ann_page = 1, ann_content = ''Attention is all you need'',
           ann_rects = [\<lparr>rect_x = 120, rect_y = 210, rect_w = 300, rect_h = 14\<rparr>,
                          \<lparr>rect_x = 60, rect_y = 226, rect_w = 180, rect_h = 14\<rparr>],
           ann_color = ''#FFFF00'', ann_comment = []\<rparr> 50 30
           \<lparr>tl_left = 50, tl_top = 30, tl_scrollLeft = 0, tl_scrollTop = 5, tl_children = []\<rparr>
           \<lparr>rect_x = 120, rect_y = 210, rect_w = 300, rect_h = 14\<rparr>,
        make_highlight \<lparr>ann_id = - 1, ann_page = 1, ann_content = ''Attention is all you need'',
           ann_rects = [\<lparr>rect_x = 120, rect_y = 210, rect_w = 300, rect_h = 14\<rparr>,
                          \<lparr>rect_x = 60, rect_y = 226, rect_w = 180, rect_h = 14\<rparr>],
           ann_color = ''#FFFF00'', ann_comment = []\<rparr> 50 30
           \<lparr>tl_left = 50, tl_top = 30, tl_scrollLeft = 0, tl_scrollTop = 5, tl_children = []\<rparr>
           \<lparr>rect_x = 60, rect_y = 226, rect_w = 180, rect_h = 14\<rparr>]"
proof -
  have a: "selectedText selected \<noteq> []" and b: "selectionRects selected \<noteq> []"
    by (simp_all add: selected_eq)
  have p: "page_overlays (frame_pages selected ! 0) = []"
    by (simp add: selected_eq connected_def boot_def page_overlays_def)
  have f: "first_index (\<lambda>p. pd_number p = string_of_int 1) (frame_pages selected) = Some 0"
    using selected_page1 by (simp add: selected_eq)
  show ?thesis
    using f by (simp add: createHighlight_page_overlays [OF a b] p rendered_on_def)
      (simp add: selected_eq connected_def boot_def)
qed

section \<open>Short selections\<close>

text \<open>
  C1 (as amended). For every pointer-release selection whose trimmed text has fewer than
  2 characters, \<^verbatim>\<open>handleTextSelection\<close> sets the selected text to the empty string and
  hides the context menu, and does nothing else: the selection rectangles and the
  selection page keep the values they had, no host call is made and the menu is not
  shown.
\<close>

theorem C1_short_selection:
  assumes "length (trim (sel_toString sl)) < 2"
  shows "selectedText (handleTextSelection d (Some sl) e s) = []
       \<and> menu_display (handleTextSelection d (Some sl) e s) = ''none''
       \<and> selectionRects (handleTextSelection d (Some sl) e s) = selectionRects s
       \<and> selectionPage (handleTextSelection d (Some sl) e s) = selectionPage s
       \<and> host_calls (handleTextSelection d (Some sl) e s) = host_calls s
       \<and> handleTextSelection d (Some sl) e s = s\<lparr>menu_display := ''none'', selectedText := []\<rparr>"
  using assms by (simp add: handleTextSelection_def hideContextMenu_def)

theorem C1_short_selection_witness:
  "length (trim (sel_toString sel_short)) < 2
   \<and> selectedText (handleTextSelection 0 (Some sel_short) release connected) = []
   \<and> menu_display (handleTextSelection 0 (Some sel_short) release connected) = ''none''"
proof -
  have h: "length (trim (sel_toString sel_short)) < 2"
    by (simp add: sel_short_def trim_def is_js_space_def)
  show ?thesis
    using h C1_short_selection [OF h, of 0 release connected] by simp
qed

text \<open>
  C1 as stated fails: after a selection of two lines, a selection of the single letter
  \<^verbatim>\<open>a\<close> leaves the two rectangles in \<open>selectionRects\<close>.
\<close>

theorem C1_rects_not_cleared:
  "length (trim (sel_toString sel_short)) < 2
   \<and> selectionRects (handleTextSelection 0 (Some sel_short) release
                      (handleTextSelection 0 (Some sel_long) release connected)) \<noteq> []"
  by (simp add: handleTextSelection_def hideContextMenu_def showContextMenu_def call_def
        getPageFromSelection_def trim_def is_js_space_def Let_def
        sel_short_def sel_long_def connected_def boot_def)

section \<open>Qualifying selections\<close>

text \<open>
  C6. For every pointer-release selection whose trimmed text has at least 2 characters,
  in connected mode \<^verbatim>\<open>handleTextSelection\<close> makes exactly one host call,
  \<^verbatim>\<open>onTextSelected\<close>, and its payload is the trimmed selected text.
\<close>

theorem C6_one_onTextSelected:
  assumes "pyBridge s" and "2 \<le> length (trim (sel_toString sl))"
  shows "host_calls (handleTextSelection d (Some sl) e s)
           = host_calls s @ [onTextSelected (trim (sel_toString sl))]"
  using assms by (simp add: handleTextSelection_def showContextMenu_def call_def Let_def)

theorem C6_one_onTextSelected_witness:
  "pyBridge connected \<and> 2 \<le> length (trim (sel_toString sel_long))
   \<and> host_calls (handleTextSelection 0 (Some sel_long) release connected)
       = [onTextSelected ''Attention is all you need'']"
proof -
  have p: "pyBridge connected"
    by (simp add: connected_def)
  have t: "trim (sel_toString sel_long) = ''Attention is all you need''"
    by (simp add: sel_long_def trim_def is_js_space_def)
  have h: "2 \<le> length (trim (sel_toString sel_long))"
    by (simp add: t)
  have c: "host_calls connected = []"
    by (simp add: connected_def boot_def)
  show ?thesis
    using p h C6_one_onTextSelected [OF p h, of 0 release] by (simp add: t c)
qed

section \<open>Missing file parameter\<close>

text \<open>
  C9. If the query string has no \<^verbatim>\<open>file\<close> parameter, \<^verbatim>\<open>initViewer\<close> logs an error,
  shows the toast \<^verbatim>\<open>Error: No PDF file specified\<close> (hidden again after 3000 ms) and
  returns: the frame's source address and load handlers are not set, and nothing else
  in the state changes.
\<close>

theorem C9_missing_file:
  assumes "''file'' \<notin> fst ` set (location_params s)"
  shows "initViewer s =
           s\<lparr>console := console s @ [Error ''No 'file' parameter provided in URL.''],
             toast_textContent := ''Error: No PDF file specified'',
             toast_display := ''block'',
             timers := timers s @ [(3000, HideToast)]\<rparr>
       \<and> iframe_src (initViewer s) = iframe_src s
       \<and> iframe_onload (initViewer s) = iframe_onload s
       \<and> host_calls (initViewer s) = host_calls s"
proof -
  from assms have "map_of (location_params s) ''file'' = None"
    by (simp add: map_of_eq_None_iff)
  then show ?thesis
    by (simp add: initViewer_def showToast_def Console_def setTimeout_def)
qed

theorem C9_missing_file_witness:
  "''file'' \<notin> fst ` set (location_params no_file)
   \<and> toast_textContent (initViewer no_file) = ''Error: No PDF file specified''
   \<and> toast_display (initViewer no_file) = ''block''
   \<and> iframe_src (initViewer no_file) = None"
proof -
  have h: "''file'' \<notin> fst ` set (location_params no_file)"
    by (simp add: no_file_def)
  have i: "iframe_src no_file = None"
    by (simp add: no_file_def boot_def)
  show ?thesis
    using h C9_missing_file [OF h] by (simp add: i)
qed

section \<open>Menu position\<close>

text \<open>
  C5 (as amended). For every input position (x, y), \<^verbatim>\<open>showContextMenu\<close> makes the menu
  visible at the final position (l, t), where l = x when x + menuWidth \<le> viewportWidth
  and l = viewportWidth - menuWidth - 10 otherwise, and t = y when
  y + menuHeight \<le> viewportHeight and t = viewportHeight - menuHeight - 10 otherwise:
  the margin of 10 is applied only to a position that would overflow. Hence
  l + menuWidth \<le> viewportWidth and t + menuHeight \<le> viewportHeight, so the menu never
  overflows the right or the bottom edge; and if x \<ge> 0 and menuWidth + 10 \<le> viewportWidth
  then l \<ge> 0, and likewise for t.
\<close>

theorem C5_menu_position:
  "\<exists>l t. menu_left (showContextMenu x y s) = Some l \<and> menu_top (showContextMenu x y s) = Some t
     \<and> menu_display (showContextMenu x y s) = ''block''
     \<and> (x + menu_width s \<le> innerWidth s \<longrightarrow> l = x)
     \<and> (innerWidth s < x + menu_width s \<longrightarrow> l = innerWidth s - menu_width s - 10)
     \<and> (y + menu_height s \<le> innerHeight s \<longrightarrow> t = y)
     \<and> (innerHeight s < y + menu_height s \<longrightarrow> t = innerHeight s - menu_height s - 10)
     \<and> l + menu_width s \<le> innerWidth s \<and> t + menu_height s \<le> innerHeight s
     \<and> (0 \<le> x \<and> menu_width s + 10 \<le> innerWidth s \<longrightarrow> 0 \<le> l)
     \<and> (0 \<le> y \<and> menu_height s + 10 \<le> innerHeight s \<longrightarrow> 0 \<le> t)"
  by (simp add: showContextMenu_def Let_def)

theorem C5_menu_position_witness:
  "(0::real) \<le> 700 \<and> (0::real) \<le> 100 \<and> (0::real) \<le> 550
   \<and> menu_width boot + 10 \<le> innerWidth boot \<and> menu_height boot + 10 \<le> innerHeight boot
   \<and> innerWidth boot < 700 + menu_width boot \<and> 100 + menu_height boot \<le> innerHeight boot
   \<and> menu_left (showContextMenu 700 100 boot) = Some 630
   \<and> menu_top (showContextMenu 700 100 boot) = Some 100
   \<and> 100 + menu_width boot \<le> innerWidth boot \<and> innerHeight boot < 550 + menu_height boot
   \<and> menu_left (showContextMenu 100 550 boot) = Some 100
   \<and> menu_top (showContextMenu 100 550 boot) = Some 470"
proof -
  have w: "menu_width boot = 160" "menu_height boot = 120"
    "innerWidth boot = 800" "innerHeight boot = 600"
    by (simp_all add: boot_def)
  show ?thesis
    using C5_menu_position [of 700 100 boot] C5_menu_position [of 100 550 boot]
    by (auto simp add: w)
qed

text \<open>
  C5 as stated fails on both bounds. In the 800 wide window the menu of width 160 asked
  for at x = 635 does not overflow and stays at 635, which exceeds 800 - 160 - 10. A
  position left of the window is kept (x = -5 stays at -5), and a menu of width 795 asked
  for at x = 10 is moved to 800 - 795 - 10 = -5: nothing keeps the position at or above 0.
\<close>

theorem C5_outside_claimed_rectangle:
  "menu_left (showContextMenu 635 100 boot) = Some 635
   \<and> \<not> (635 \<le> innerWidth boot - menu_width boot - 10)
   \<and> menu_left (showContextMenu (- 5) 100 boot) = Some (- 5)
   \<and> menu_left (showContextMenu 10 100 (boot\<lparr>menu_width := 795\<rparr>)) = Some (- 5)
   \<and> \<not> (0 \<le> (- 5 :: real))"
  by (simp add: showContextMenu_def Let_def boot_def)

section \<open>Page of a selection\<close>

lemma page_walk_unmarked:
  "\<forall>n \<in> set (ancestors_or_self a). \<not> contains_page (classList n) \<Longrightarrow> page_walk doc a = 0"
  by (induction doc a rule: page_walk.induct) simp_all

text \<open>
  C8. \<^verbatim>\<open>getPageFromSelection\<close> returns 0 for a missing selection, for a selection with
  no range, and for every selection such that neither the anchor node nor any of its
  ancestors is marked as a page container. The function is total: each DOM access of the
  source is guarded, so no branch faults.
\<close>

theorem C8_page_zero:
  "getPageFromSelection doc None = 0
   \<and> (sel_ranges sl = [] \<longrightarrow> getPageFromSelection doc (Some sl) = 0)
   \<and> ((\<forall>n \<in> set (ancestors_or_self (sel_anchorNode sl)). \<not> contains_page (classList n))
        \<longrightarrow> getPageFromSelection doc (Some sl) = 0)"
  by (simp add: getPageFromSelection_def page_walk_unmarked)

theorem C8_page_zero_witness:
  "map (\<lambda>n. contains_page (classList n)) (ancestors_or_self (sel_anchorNode sel_toolbar))
     = [False, False, False]
   \<and> sel_ranges sel_toolbar \<noteq> []
   \<and> getPageFromSelection 0 (Some sel_toolbar) = 0
   \<and> sel_ranges (sel_toolbar\<lparr>sel_ranges := []\<rparr>) = []
   \<and> getPageFromSelection 0 (Some (sel_toolbar\<lparr>sel_ranges := []\<rparr>)) = 0"
proof -
  have h: "\<forall>n \<in> set (ancestors_or_self (sel_anchorNode sel_toolbar)). \<not> contains_page (classList n)"
    by (simp add: sel_toolbar_def toolbar_text_node_def document_node_def contains_page_def)
  have r: "sel_ranges sel_toolbar \<noteq> []"
    by (simp add: sel_toolbar_def)
  have m: "map (\<lambda>n. contains_page (classList n)) (ancestors_or_self (sel_anchorNode sel_toolbar))
     = [False, False, False]"
    by (simp add: sel_toolbar_def toolbar_text_node_def document_node_def contains_page_def)
  show ?thesis
    using h r m C8_page_zero [of 0 sel_toolbar] C8_page_zero [of 0 "sel_toolbar\<lparr>sel_ranges := []\<rparr>"]
    by simp
qed

section \<open>Overlay geometry\<close>

text \<open>
  C2. When \<^verbatim>\<open>renderHighlight\<close> finds the page container of an annotation and its text
  layer, it appends one overlay element for each rect of the annotation, and the element
  for the rect \<open>r\<close> has left, top, width and height
  (r.x - textLayerRect.left + scrollLeft, r.y - textLayerRect.top + scrollTop, r.w, r.h).
\<close>

theorem C2_overlay_geometry:
  assumes "frame_access s"
    and "first_index (\<lambda>p. pd_number p = string_of_int (ann_page ann)) (frame_pages s) = Some k"
    and "pd_textLayer (frame_pages s ! k) = Some textLayer"
    and "i < length (ann_rects ann)"
  shows "length (page_overlays (frame_pages (renderHighlight ann s) ! k))
           = length (tl_children textLayer) + length (ann_rects ann)
       \<and> (let ov = page_overlays (frame_pages (renderHighlight ann s) ! k)
                      ! (length (tl_children textLayer) + i);
               r = ann_rects ann ! i
          in (ov_left ov, ov_top ov, ov_width ov, ov_height ov)
               = (rect_x r - tl_left textLayer + tl_scrollLeft textLayer,
                  rect_y r - tl_top textLayer + tl_scrollTop textLayer,
                  rect_w r, rect_h r))"
proof -
  have "page_overlays (frame_pages (renderHighlight ann s) ! k)
          = tl_children textLayer
            @ map (make_highlight ann (tl_left textLayer) (tl_top textLayer) textLayer) (ann_rects ann)"
    using assms(1-3)
    by (simp add: renderHighlight_page_overlays rendered_on_def) (simp add: page_overlays_def)
  with assms(4) show ?thesis
    by (simp add: Let_def make_highlight_def)
qed

theorem C2_overlay_geometry_witness:
  "frame_access boot
   \<and> first_index (\<lambda>p. pd_number p = string_of_int (ann_page ann7)) (frame_pages boot) = Some 0
   \<and> pd_textLayer (frame_pages boot ! 0)
        = Some \<lparr>tl_left = 50, tl_top = 30, tl_scrollLeft = 0, tl_scrollTop = 5, tl_children = []\<rparr>
   \<and> 0 < length (ann_rects ann7)
   \<and> (let ov = page_overlays (frame_pages (renderHighlight ann7 boot) ! 0) ! 0
      in (ov_left ov, ov_top ov, ov_width ov, ov_height ov) = (70, 185, 80, 14))"
proof -
  have a: "frame_access boot"
    by (simp add: boot_def)
  have f: "first_index (\<lambda>p. pd_number p = string_of_int (ann_page ann7)) (frame_pages boot) = Some 0"
    by (simp add: ann7_def boot_page1)
  have t: "pd_textLayer (frame_pages boot ! 0)
        = Some \<lparr>tl_left = 50, tl_top = 30, tl_scrollLeft = 0, tl_scrollTop = 5, tl_children = []\<rparr>"
    by (simp add: boot_def)
  have i: "0 < length (ann_rects ann7)"
    by (simp add: ann7_def)
  show ?thesis
    using a f t i C2_overlay_geometry [OF a f t i] by (simp add: Let_def ann7_def)
qed

section \<open>Creating a highlight\<close>

text \<open>
  C3 (as amended). Whenever a highlight is created from a non-empty selection with at
  least one rect in connected mode, exactly one \<^verbatim>\<open>onAnnotationRequest\<close> host call is made,
  carrying the serialized page, text, rects, colour and empty comment of the selection;
  and when the viewer document has a page container for the selection's page that holds a
  text layer, one overlay element for each selection rect is appended to that text layer,
  each tagged with annotation id -1.
\<close>

theorem C3_create_highlight:
  assumes "selectedText s \<noteq> []" and "selectionRects s \<noteq> []" and "pyBridge s"
  shows "host_calls (createHighlight s)
           = host_calls s
             @ [onAnnotationRequest
                  (JObj [(''page'', JNum (of_int (selectionPage s))),
                         (''text'', JStr (selectedText s)),
                         (''rects'', JArr (map rect_json (selectionRects s))),
                         (''color'', JStr ''#FFFF00''),
                         (''comment'', JStr [])])]
       \<and> (frame_access s
            \<and> first_index (\<lambda>p. pd_number p = string_of_int (selectionPage s)) (frame_pages s) = Some k
            \<and> pd_textLayer (frame_pages s ! k) = Some textLayer
          \<longrightarrow> take (length (tl_children textLayer)) (page_overlays (frame_pages (createHighlight s) ! k))
                = tl_children textLayer
              \<and> map ov_annotation_id
                  (drop (length (tl_children textLayer)) (page_overlays (frame_pages (createHighlight s) ! k)))
                = replicate (length (selectionRects s)) (- 1))"
proof -
  let ?ann = "\<lparr>ann_id = - 1, ann_page = selectionPage s, ann_content = selectedText s,
               ann_rects = selectionRects s, ann_color = ''#FFFF00'', ann_comment = []\<rparr>"
  let ?s1 = "call (onAnnotationRequest (annotationData s)) s"
  have ch: "createHighlight s = showToast ''Highlight saved!'' None (renderHighlight ?ann ?s1)"
    using assms by (simp add: createHighlight_def Let_def call_def)
  have calls: "host_calls (createHighlight s) = host_calls s @ [onAnnotationRequest (annotationData s)]"
    by (simp add: ch showToast_def setTimeout_def renderHighlight_frame call_def Let_def)
  have pages: "frame_pages (createHighlight s) = frame_pages (renderHighlight ?ann ?s1)"
    by (simp add: ch showToast_def setTimeout_def Let_def)
  have render: "page_overlays (frame_pages (createHighlight s) ! k)
                  = tl_children textLayer
                    @ map (make_highlight ?ann (tl_left textLayer) (tl_top textLayer) textLayer)
                        (selectionRects s)"
    if "frame_access s"
      and "first_index (\<lambda>p. pd_number p = string_of_int (selectionPage s)) (frame_pages s) = Some k"
      and "pd_textLayer (frame_pages s ! k) = Some textLayer"
    using that
    by (simp add: pages renderHighlight_page_overlays rendered_on_def call_def)
       (simp add: page_overlays_def)
  have ids: "map ov_annotation_id
               (map (make_highlight ?ann (tl_left textLayer) (tl_top textLayer) textLayer) rs)
             = replicate (length rs) (- 1)" for rs
    by (induction rs) (simp_all add: make_highlight_def)
  show ?thesis
    using calls render ids by (simp add: annotationData_def)
qed

theorem C3_create_highlight_witness:
  "selectedText selected \<noteq> [] \<and> selectionRects selected \<noteq> [] \<and> pyBridge selected
   \<and> frame_access selected
   \<and> first_index (\<lambda>p. pd_number p = string_of_int (selectionPage selected)) (frame_pages selected) = Some 0
   \<and> pd_textLayer (frame_pages selected ! 0)
        = Some \<lparr>tl_left = 50, tl_top = 30, tl_scrollLeft = 0, tl_scrollTop = 5, tl_children = []\<rparr>
   \<and> length (host_calls (createHighlight selected)) = length (host_calls selected) + 1
   \<and> map ov_annotation_id (page_overlays (frame_pages (createHighlight selected) ! 0)) = [- 1, - 1]"
proof -
  have a: "selectedText selected \<noteq> []" and b: "selectionRects selected \<noteq> []"
    and c: "pyBridge selected" and d: "frame_access selected"
    by (simp_all add: selected_eq connected_def boot_def)
  have t: "pd_textLayer (frame_pages selected ! 0)
        = Some \<lparr>tl_left = 50, tl_top = 30, tl_scrollLeft = 0, tl_scrollTop = 5, tl_children = []\<rparr>"
    by (simp add: selected_eq connected_def boot_def)
  have n: "length (selectionRects selected) = 2"
    by (simp add: selected_eq)
  show ?thesis
    using a b c d t selected_page1
      C3_create_highlight [OF a b c, of 0 "\<lparr>tl_left = 50, tl_top = 30, tl_scrollLeft = 0, tl_scrollTop = 5, tl_children = []\<rparr>"]
    by (simp add: n numeral_2_eq_2)
qed

text \<open>
  C3 as stated fails: a selection in the toolbar resolves to page 0, the viewer document
  has no page container numbered 0, and creating the highlight renders no overlay at all.
\<close>

theorem C3_no_page_no_overlay:
  "selectedText selected_toolbar \<noteq> [] \<and> selectionRects selected_toolbar \<noteq> []
   \<and> pyBridge selected_toolbar
   \<and> all_overlays (createHighlight selected_toolbar) = []"
  by (simp add: selected_toolbar_eq createHighlight_def renderHighlight_def showToast_def
        setTimeout_def Console_def call_def all_overlays_def page_overlays_def Let_def
        string_of_int_def string_of_nat.simps connected_def boot_def)

section \<open>Signalling readiness\<close>

lemma setup_ready:
  assumes "frame_access s" and "frame_app s = Some (PDFViewerApplication True)"
  shows "bus_listeners (setupIframeListeners s) = bus_listeners s @
            [(''pagechanging'', PageChangingFn), (''documentloaded'', DocumentLoadedFn),
                           (''documenterror'', DocumentErrorFn)]"
    and "pyBridge (setupIframeListeners s) = pyBridge s"
    and "host_calls (setupIframeListeners s) = host_calls s"
  using assms by (simp_all add: setupIframeListeners_def Console_def Let_def)

lemma dispatch_installed:
  assumes "bus_listeners t = [(''pagechanging'', PageChangingFn), (''documentloaded'', DocumentLoadedFn),
                           (''documenterror'', DocumentErrorFn)]" and "pyBridge t"
  shows "bus_listeners (dispatch evt t) = bus_listeners t"
    and "pyBridge (dispatch evt t)"
    and "count_list (host_calls (dispatch evt t)) onViewerReady
           = count_list (host_calls t) onViewerReady + (if evt = documentloaded then 1 else 0)"
  using assms
  by (cases evt; simp add: dispatch_def run_bus_handler_def Console_def call_def showToast_def
        setTimeout_def Let_def)+

lemma dispatch_all_installed:
  assumes "bus_listeners t = [(''pagechanging'', PageChangingFn), (''documentloaded'', DocumentLoadedFn),
                           (''documenterror'', DocumentErrorFn)]" and "pyBridge t"
  shows "count_list (host_calls (dispatch_all evts t)) onViewerReady
           = count_list (host_calls t) onViewerReady + count_list evts documentloaded"
  using assms
proof (induction evts arbitrary: t)
  case Nil
  show ?case by simp
next
  case (Cons evt evts)
  have "bus_listeners (dispatch evt t) = [(''pagechanging'', PageChangingFn), (''documentloaded'', DocumentLoadedFn),
                           (''documenterror'', DocumentErrorFn)]"
    using dispatch_installed(1) [OF Cons.prems] Cons.prems(1) by simp
  moreover have "pyBridge (dispatch evt t)"
    by (rule dispatch_installed(2) [OF Cons.prems])
  ultimately have "count_list (host_calls (dispatch_all evts (dispatch evt t))) onViewerReady
           = count_list (host_calls (dispatch evt t)) onViewerReady + count_list evts documentloaded"
    by (rule Cons.IH)
  then show ?case
    using dispatch_installed(3) [OF Cons.prems, of evt] by simp
qed

text \<open>
  C4 (as amended). In connected mode, once the listeners are installed on a fresh event
  bus, the \<^verbatim>\<open>onViewerReady\<close> host call is made once for each document-loaded event of
  the viewer: never when no such event occurs, once when there is one, and again on each
  further one.
\<close>

theorem C4_ready_per_document_loaded:
  assumes "pyBridge s" and "frame_access s" and "frame_app s = Some (PDFViewerApplication True)"
    and "bus_listeners s = []"
  shows "count_list (host_calls (dispatch_all evts (setupIframeListeners s))) onViewerReady
           = count_list (host_calls s) onViewerReady + count_list evts documentloaded"
proof -
  have "bus_listeners (setupIframeListeners s) = [(''pagechanging'', PageChangingFn), (''documentloaded'', DocumentLoadedFn),
                           (''documenterror'', DocumentErrorFn)]"
    using setup_ready(1) [OF assms(2,3)] assms(4) by simp
  moreover have "pyBridge (setupIframeListeners s)"
    using setup_ready(2) [OF assms(2,3)] assms(1) by simp
  ultimately show ?thesis
    using setup_ready(3) [OF assms(2,3)] by (simp add: dispatch_all_installed)
qed

theorem C4_ready_per_document_loaded_witness:
  "pyBridge connected \<and> frame_access connected
   \<and> frame_app connected = Some (PDFViewerApplication True) \<and> bus_listeners connected = []
   \<and> count_list (host_calls (dispatch_all [pagechanging 2, documentloaded, documenterror None]
                                (setupIframeListeners connected))) onViewerReady = 1
   \<and> count_list (host_calls (dispatch_all [pagechanging 2] (setupIframeListeners connected)))
        onViewerReady = 0"
proof -
  have a: "pyBridge connected" and b: "frame_access connected"
    and c: "frame_app connected = Some (PDFViewerApplication True)"
    and d: "bus_listeners connected = []" and e: "host_calls connected = []"
    by (simp_all add: connected_def boot_def)
  show ?thesis
    using a b c d C4_ready_per_document_loaded [OF a b c d, of "[pagechanging 2, documentloaded, documenterror None]"]
      C4_ready_per_document_loaded [OF a b c d, of "[pagechanging 2]"]
    by (simp add: e)
qed

text \<open>
  C4 as stated fails: two document-loaded events give two \<^verbatim>\<open>onViewerReady\<close> calls.
\<close>

theorem C4_ready_twice:
  "pyBridge connected
   \<and> count_list (host_calls (dispatch_all [documentloaded, documentloaded]
                                (setupIframeListeners connected))) onViewerReady = 2"
  by (simp add: setupIframeListeners_def dispatch_def run_bus_handler_def Console_def call_def
        Let_def connected_def boot_def)

section \<open>Confirming an annotation\<close>

text \<open>
  C7. For every \<open>realId\<close>, \<^verbatim>\<open>confirmAnnotation\<close> only appends a line to the console: the
  host calls, the overlay elements and every other part of the state are unchanged, and a
  click on any overlay sends what it would have sent before. In particular every overlay
  element that \<^verbatim>\<open>createHighlight\<close> appended still carries the annotation id -1 after the
  confirmation, and a click on it sends the id -1.
\<close>

theorem C7_confirm_only_logs:
  "confirmAnnotation realId s
     = s\<lparr>console := console s @ [Log (''Annotation confirmed with ID: '' @ string_of_int realId)]\<rparr>
   \<and> host_calls (confirmAnnotation realId s) = host_calls s
   \<and> frame_pages (confirmAnnotation realId s) = frame_pages s
   \<and> host_calls (overlay_click ov (confirmAnnotation realId s)) = host_calls (overlay_click ov s)
   \<and> (\<forall>new \<in> set (drop (length (page_overlays (frame_pages s ! k)))
                     (page_overlays (frame_pages (confirmAnnotation realId (createHighlight s)) ! k))).
        ov_annotation_id new = - 1
        \<and> (pyBridge s \<longrightarrow>
             host_calls (overlay_click new (confirmAnnotation realId (createHighlight s)))
               = host_calls (createHighlight s)
                 @ [onContextAction ''show_annotation''
                      (Stringified (JObj [(''id'', JNum (- 1)),
                                          (''content'', JStr (selectedText s)),
                                          (''comment'', JStr [])]))]))"
proof -
  have conf: "confirmAnnotation realId t
     = t\<lparr>console := console t @ [Log (''Annotation confirmed with ID: '' @ string_of_int realId)]\<rparr>"
    for t
    by (simp add: confirmAnnotation_def Console_def)
  have click: "host_calls (overlay_click ov (confirmAnnotation realId s)) = host_calls (overlay_click ov s)"
    by (simp add: conf overlay_click_def call_def)
  have new: "ov_annotation_id new = - 1
        \<and> (pyBridge s \<longrightarrow>
             host_calls (overlay_click new (confirmAnnotation realId (createHighlight s)))
               = host_calls (createHighlight s)
                 @ [onContextAction ''show_annotation''
                      (Stringified (JObj [(''id'', JNum (- 1)),
                                          (''content'', JStr (selectedText s)),
                                          (''comment'', JStr [])]))])"
    if n: "new \<in> set (drop (length (page_overlays (frame_pages s ! k)))
                     (page_overlays (frame_pages (confirmAnnotation realId (createHighlight s)) ! k)))"
    for new
  proof (cases "selectedText s = [] \<or> selectionRects s = []")
    case True
    then have "createHighlight s = s"
      by (auto simp add: createHighlight_def)
    with n show ?thesis by (simp add: conf)
  next
    case False
    then have "page_overlays (frame_pages (createHighlight s) ! k)
           = page_overlays (frame_pages s ! k)
             @ rendered_on s k \<lparr>ann_id = - 1, ann_page = selectionPage s, ann_content = selectedText s,
      ann_rects = selectionRects s, ann_color = ''#FFFF00'', ann_comment = []\<rparr>"
      by (simp add: createHighlight_page_overlays)
    with n have "new \<in> set (rendered_on s k \<lparr>ann_id = - 1, ann_page = selectionPage s,
      ann_content = selectedText s,
      ann_rects = selectionRects s, ann_color = ''#FFFF00'', ann_comment = []\<rparr>)"
      by (simp add: conf)
    from rendered_on_elem [OF this] show ?thesis
      by (simp add: conf overlay_click_def call_def createHighlight_frame)
  qed
  show ?thesis
    using click new by (simp add: conf)
qed

theorem C7_confirm_only_logs_witness:
  "pyBridge selected
   \<and> (let s' = confirmAnnotation 42 (createHighlight selected);
           ov = page_overlays (frame_pages s' ! 0) ! 0
       in ov_annotation_id ov = - 1
          \<and> host_calls (overlay_click ov s')
              = host_calls (createHighlight selected)
                @ [onContextAction ''show_annotation''
                     (Stringified (JObj [(''id'', JNum (- 1)),
                                         (''content'', JStr ''Attention is all you need''),
                                         (''comment'', JStr [])]))])"
proof -
  have c: "pyBridge selected" and p: "page_overlays (frame_pages selected ! 0) = []"
    and t: "selectedText selected = ''Attention is all you need''"
    by (simp_all add: selected_eq connected_def boot_def page_overlays_def)
  have f: "frame_pages (confirmAnnotation 42 (createHighlight selected))
             = frame_pages (createHighlight selected)"
    by (simp add: confirmAnnotation_def Console_def)
  show ?thesis
    using c C7_confirm_only_logs [of 42 selected _ 0]
    by (simp add: p t f selected_created Let_def)
qed

section \<open>Loading annotations twice\<close>

text \<open>
  C10. For two consecutive \<^verbatim>\<open>loadAnnotations\<close> calls, the second call replaces the
  annotation list with its argument and keeps every page container; under each page
  container the overlay elements present after the first call stay, in place and in order,
  and the overlay elements of the second list are appended after them.
\<close>

theorem C10_reload_keeps_overlays:
  "annotations (loadAnnotations l2 (loadAnnotations l1 s)) = l2
   \<and> length (frame_pages (loadAnnotations l2 (loadAnnotations l1 s)))
       = length (frame_pages (loadAnnotations l1 s))
   \<and> page_overlays (frame_pages (loadAnnotations l1 s) ! k)
       = page_overlays (frame_pages s ! k) @ concat (map (rendered_on s k) l1)
   \<and> page_overlays (frame_pages (loadAnnotations l2 (loadAnnotations l1 s)) ! k)
       = page_overlays (frame_pages (loadAnnotations l1 s) ! k)
         @ concat (map (rendered_on (loadAnnotations l1 s) k) l2)"
proof -
  have load: "loadAnnotations l t
      = fold renderHighlight l
          (t\<lparr>console := console t @ [Log (''Loading '' @ string_of_nat (length l)
                              @ '' annotations from DB.'')], annotations := l\<rparr>)" for l t
    by (simp add: loadAnnotations_def Console_def Let_def)
  have ann: "annotations (loadAnnotations l t) = l" for l t
    by (simp add: load fold_renderHighlight_frame)
  have len: "length (frame_pages (loadAnnotations l t)) = length (frame_pages t)" for l t
  proof -
    have "length (map page_layout (frame_pages (loadAnnotations l t)))
            = length (map page_layout (frame_pages t))"
      by (simp only: load fold_renderHighlight_frame) simp
    then show ?thesis by simp
  qed
  have ov: "page_overlays (frame_pages (loadAnnotations l t) ! k)
       = page_overlays (frame_pages t ! k) @ concat (map (rendered_on t k) l)" for l t
  proof -
    have "rendered_on (t\<lparr>console := console t @ [Log (''Loading '' @ string_of_nat (length l)
                              @ '' annotations from DB.'')], annotations := l\<rparr>) k = rendered_on t k"
      by (rule ext) (rule rendered_on_cong; simp)
    then show ?thesis
      by (simp add: load fold_renderHighlight_overlays)
  qed
  show ?thesis
    by (simp add: ann len ov)
qed

theorem C10_reload_keeps_overlays_witness:
  "annotations (loadAnnotations [ann8] (loadAnnotations [ann7] connected)) = [ann8]
   \<and> map ov_annotation_id (page_overlays (frame_pages (loadAnnotations [ann7] connected) ! 0)) = [7]
   \<and> map ov_annotation_id
       (page_overlays (frame_pages (loadAnnotations [ann8] (loadAnnotations [ann7] connected)) ! 0))
     = [7, 8]"
proof -
  have a: "frame_access connected" and p: "page_overlays (frame_pages connected ! 0) = []"
    by (simp_all add: connected_def boot_def page_overlays_def)
  have f: "first_index (\<lambda>p. pd_number p = string_of_int 1) (frame_pages connected) = Some 0"
    using boot_page1 by (simp add: connected_def)
  have r7: "map ov_annotation_id (rendered_on connected 0 ann7) = [7]"
    using a f by (simp add: rendered_on_def ann7_def make_highlight_def connected_def boot_def)
  have c: "rendered_on (loadAnnotations [ann7] connected) 0 = rendered_on connected 0"
    by (rule ext)
       (rule rendered_on_cong;
        simp add: loadAnnotations_def Let_def Console_def renderHighlight_frame renderHighlight_layout)
  have r8: "map ov_annotation_id (rendered_on connected 0 ann8) = [8]"
    using a f by (simp add: rendered_on_def ann8_def make_highlight_def connected_def boot_def)
  show ?thesis
    using C10_reload_keeps_overlays [of "[ann8]" "[ann7]" connected 0] by (simp add: p r7 r8 c)
qed

end
